theory Spec2Isabelle
  imports Main "HOL-Library.Sublist"
begin

section \<open>Exceptions\<close>

text \<open>
  The exceptions that can travel through \<^verbatim>\<open>recipe/upload_or_check_non_existence.py\<close>.
  All of them are subclasses of Python's \<^verbatim>\<open>Exception\<close>, which is what the retry wrapper
  catches.
  \<^item> \<open>RuntimeError\<close>: raised by \<^verbatim>\<open>split_pkg\<close> for a name without the archive suffix;
  \<^item> \<open>ValueError\<close>: a tuple unpacking (\<^verbatim>\<open>plat, pkg_name = ...\<close>) that does not get two values;
  \<^item> \<open>TypeError\<close>: \<^verbatim>\<open>fh.write(None)\<close>;
  \<^item> \<open>NotFound\<close>: \<^verbatim>\<open>binstar_client.errors.NotFound\<close>;
  \<^item> \<open>BinstarError\<close>, \<open>ConnectionError\<close>: the other failures of the remote client;
  \<^item> \<open>OSError\<close>: a failing \<^verbatim>\<open>os.listdir\<close>;
  \<^item> \<open>CalledProcessError\<close>: a non-zero exit of the upload command;
  \<^item> \<open>TimeoutError\<close>: raised by the retry wrapper after its last attempt.
\<close>

datatype error =
    RuntimeError
  | ValueError
  | TypeError
  | NotFound
  | BinstarError
  | ConnectionError
  | OSError
  | CalledProcessError
  | TimeoutError

section \<open>String operations of Python used by the script\<close>

text \<open>\<^verbatim>\<open>s.split(c)\<close> for a one-character separator: the pieces between the separators,
  one more than there are separators.\<close>

fun split_on :: "char \<Rightarrow> string \<Rightarrow> string list" where
  "split_on c [] = [[]]"
| "split_on c (x # xs) =
     (if x = c then [] # split_on c xs
      else (case split_on c xs of
              [] \<Rightarrow> [[x]]
            | p # ps \<Rightarrow> (x # p) # ps))"

text \<open>\<^verbatim>\<open>s.rsplit(c, 1)\<close>: at most one split, at the last separator.\<close>

definition rsplit1 :: "char \<Rightarrow> string \<Rightarrow> string list" where
  "rsplit1 c s =
     (if c \<in> set s
      then [rev (drop 1 (dropWhile (\<lambda>x. x \<noteq> c) (rev s))), rev (takeWhile (\<lambda>x. x \<noteq> c) (rev s))]
      else [s])"

section \<open>The artifact name parser\<close>

text \<open>
  \<^verbatim>\<open>
  def split_pkg(pkg):
      if not pkg.endswith(".tar.bz2"):
          raise RuntimeError("Can only process packages that end in .tar.bz2")
      pkg = pkg[:-8]
      plat, pkg_name = pkg.split("/")
      name_ver, build = pkg_name.rsplit('-', 1)
      name, ver = name_ver.rsplit('-', 1)
      return plat, name, ver, build
  \<close>
  Each of the three unpackings raises \<open>ValueError\<close> unless it gets exactly two values.
\<close>

definition split_pkg :: "string \<Rightarrow> error + (string \<times> string \<times> string \<times> string)" where
  "split_pkg pkg =
     (if \<not> suffix ''.tar.bz2'' pkg then Inl RuntimeError
      else
        (case split_on CHR ''/'' (take (length pkg - 8) pkg) of
           [plat, pkg_name] \<Rightarrow>
             (case rsplit1 CHR ''-'' pkg_name of
                [name_ver, build] \<Rightarrow>
                  (case rsplit1 CHR ''-'' name_ver of
                     [name, ver] \<Rightarrow> Inr (plat, name, ver, build)
                   | _ \<Rightarrow> Inl ValueError)
              | _ \<Rightarrow> Inl ValueError)
         | _ \<Rightarrow> Inl ValueError))"

section \<open>Paths\<close>

text \<open>\<^verbatim>\<open>os.path.join(a, b)\<close> of \<^verbatim>\<open>posixpath\<close>, for two arguments.\<close>

definition path_join :: "string \<Rightarrow> string \<Rightarrow> string" where
  "path_join a b =
     (if prefix ''/'' b then b
      else if a = [] \<or> suffix ''/'' a then a @ b
      else a @ ''/'' @ b)"

text \<open>
  \<^verbatim>\<open>os.path.split(p)\<close> of \<^verbatim>\<open>posixpath\<close>: the tail is what follows the last slash, the head
  is what precedes it, with its trailing slashes stripped unless it consists of slashes only.
\<close>

definition os_path_split :: "string \<Rightarrow> string \<times> string" where
  "os_path_split p =
     (let tail = rev (takeWhile (\<lambda>x. x \<noteq> CHR ''/'') (rev p));
          head = take (length p - length tail) p
      in (if head \<noteq> [] \<and> \<not> list_all (\<lambda>x. x = CHR ''/'') head
          then rev (dropWhile (\<lambda>x. x = CHR ''/'') (rev head))
          else head,
          tail))"

section \<open>The outside world\<close>

text \<open>
  The lines the script prints, one constructor per format string:
  \<^item> \<open>Already_exists d owner\<close>: \<^verbatim>\<open>'Distribution {} already exists for {}'\<close>;
  \<^item> \<open>Uploaded path\<close>: \<^verbatim>\<open>'Uploaded {}'\<close>;
  \<^item> \<open>New_but_no_token path owner\<close>: \<^verbatim>\<open>'Distribution {} is new for {}, but no upload is
    taking place because the BINSTAR_TOKEN is missing.'\<close>;
  \<^item> \<open>Failed_retry e timeout\<close>: \<^verbatim>\<open>'Failed to upload due to {}.  Trying again in {} seconds'\<close>.
\<close>

datatype message =
    Already_exists string string
  | Uploaded string
  | New_but_no_token string string
  | Failed_retry error nat

text \<open>
  Every call the script makes to something outside itself is an event, recorded in the order
  of the calls:
  \<^item> \<open>Server_api token\<close>: \<^verbatim>\<open>get_server_api(token=token)\<close>;
  \<^item> \<open>Listdir d\<close>: \<^verbatim>\<open>os.listdir(d)\<close>;
  \<^item> \<open>Distribution owner name version distro_name\<close>: \<^verbatim>\<open>cli.distribution(...)\<close>;
  \<^item> \<open>Mkdtemp dn\<close>: \<^verbatim>\<open>tempfile.mkdtemp()\<close> returning \<open>dn\<close>;
  \<^item> \<open>Write_file fn s\<close>: the token written to the file \<open>fn\<close>;
  \<^item> \<open>Rmtree dn\<close>: \<^verbatim>\<open>shutil.rmtree(dn)\<close>;
  \<^item> \<open>Check_call argv\<close>: \<^verbatim>\<open>subprocess.check_call(argv, env=os.environ)\<close>, the upload;
  \<^item> \<open>Print m\<close>: \<^verbatim>\<open>print\<close>;
  \<^item> \<open>Sleep n\<close>: \<^verbatim>\<open>time.sleep(n)\<close>.
\<close>

datatype event =
    Server_api "string option"
  | Listdir string
  | Distribution string string string string
  | Mkdtemp string
  | Write_file string string
  | Rmtree string
  | Check_call "string list"
  | Print message
  | Sleep nat

text \<open>
  The state the script changes: the events so far, oldest first, and the temporary
  directories that are on disk, each with the content of its \<^verbatim>\<open>binstar.token\<close> file.
\<close>

record world =
  trace :: "event list"
  tmp :: "(string \<times> string) list"

text \<open>
  What the script reads and calls but does not define. Each collaborator answers as a
  function of the events so far, so the answers to two identical calls may differ (the remote
  index can change between two lookups, a directory between two attempts).
  \<^item> \<open>environ_token\<close>: \<^verbatim>\<open>os.environ.get('BINSTAR_TOKEN')\<close>;
  \<^item> \<open>croot\<close>, \<open>subdir\<close>: \<^verbatim>\<open>conda_build.config.croot\<close> and \<^verbatim>\<open>conda_build.config.subdir\<close>;
  \<^item> \<open>os_listdir\<close>: the names in a directory, or the exception of \<^verbatim>\<open>os.listdir\<close>;
  \<^item> \<open>distribution\<close>: the answer of \<^verbatim>\<open>cli.distribution(owner, name, version, distro_name)\<close>,
    a dictionary or an exception;
  \<^item> \<open>mkdtemp\<close>: the name \<^verbatim>\<open>tempfile.mkdtemp()\<close> returns;
  \<^item> \<open>check_call\<close>: the exception of \<^verbatim>\<open>subprocess.check_call\<close>, if any.
\<close>

record env =
  environ_token :: "string option"
  croot :: string
  subdir :: string
  os_listdir :: "event list \<Rightarrow> string \<Rightarrow> error + string list"
  distribution :: "event list \<Rightarrow> string \<Rightarrow> string \<Rightarrow> string \<Rightarrow> string \<Rightarrow> error + (string \<times> string) list"
  mkdtemp :: "event list \<Rightarrow> string"
  check_call :: "event list \<Rightarrow> string list \<Rightarrow> error option"

text \<open>The arguments of \<^verbatim>\<open>main\<close>, \<^verbatim>\<open>retry_upload_or_check\<close> and \<^verbatim>\<open>upload_or_check\<close>.\<close>

record args =
  recipe_dir :: string
  owner :: string
  channel :: string
  variant :: "string list"

text \<open>The remote client: of the object \<^verbatim>\<open>get_server_api\<close> returns, the script reads the
  attribute \<^verbatim>\<open>token\<close> and calls the method \<^verbatim>\<open>distribution\<close>.\<close>

record cli =
  token :: "string option"

definition emit :: "event \<Rightarrow> world \<Rightarrow> world" where
  "emit e w = w\<lparr>trace := trace w @ [e]\<rparr>"

definition get_server_api :: "string option \<Rightarrow> world \<Rightarrow> cli \<times> world" where
  "get_server_api tok w = (\<lparr>token = tok\<rparr>, emit (Server_api tok) w)"

definition listdir :: "env \<Rightarrow> string \<Rightarrow> world \<Rightarrow> (error + string list) \<times> world" where
  "listdir env d w = (os_listdir env (trace w) d, emit (Listdir d) w)"

section \<open>The temporary credential file\<close>

text \<open>
  \<^verbatim>\<open>
  @contextlib.contextmanager
  def get_temp_token(token):
      dn = tempfile.mkdtemp()
      fn = os.path.join(dn, "binstar.token")
      with open(fn, "w") as fh:
          fh.write(token)
      yield fn
      shutil.rmtree(dn)
  \<close>
  \<open>body\<close> is the block of the \<^verbatim>\<open>with\<close> statement. When the block raises, \<^verbatim>\<open>contextlib\<close> throws
  the exception into the generator at its \<^verbatim>\<open>yield\<close>; no \<^verbatim>\<open>try\<close> surrounds the \<^verbatim>\<open>yield\<close>, so
  the generator ends there and \<^verbatim>\<open>shutil.rmtree\<close> is not reached.
\<close>

definition get_temp_token ::
  "env \<Rightarrow> string option \<Rightarrow> (string \<Rightarrow> world \<Rightarrow> (error + 'a) \<times> world) \<Rightarrow> world
     \<Rightarrow> (error + 'a) \<times> world" where
  "get_temp_token env tok body w =
     (let dn = mkdtemp env (trace w);
          fn = path_join dn ''binstar.token'';
          w1 = emit (Mkdtemp dn) w
      in case tok of
           None \<Rightarrow> (Inl TypeError, w1\<lparr>tmp := tmp w1 @ [(dn, [])]\<rparr>)
         | Some s \<Rightarrow>
             (case body fn ((emit (Write_file fn s) w1)\<lparr>tmp := tmp w1 @ [(dn, s)]\<rparr>) of
                (Inl e, w2) \<Rightarrow> (Inl e, w2)
              | (Inr r, w2) \<Rightarrow>
                  (Inr r, (emit (Rmtree dn) w2)\<lparr>tmp := filter (\<lambda>(d, _). d \<noteq> dn) (tmp w2)\<rparr>)))"

section \<open>The existence checker\<close>

text \<open>
  \<^verbatim>\<open>
  def built_distribution_already_exists(cli, name, version, fname, owner):
      folder, basename = os.path.split(fname)
      _, platform = os.path.split(folder)
      distro_name = '{}/{}'.format(platform, basename)
      try:
          dist_info = cli.distribution(owner, name, version, distro_name)
      except binstar_client.errors.NotFound:
          dist_info = {}
      exists = bool(dist_info)
      return exists
  \<close>
\<close>

definition distro_name :: "string \<Rightarrow> string" where
  "distro_name fname =
     (let (folder, basename) = os_path_split fname;
          (_, platform) = os_path_split folder
      in platform @ ''/'' @ basename)"

definition built_distribution_already_exists ::
  "env \<Rightarrow> cli \<Rightarrow> string \<Rightarrow> string \<Rightarrow> string \<Rightarrow> string \<Rightarrow> world \<Rightarrow> (error + bool) \<times> world" where
  "built_distribution_already_exists env c name version fname own w =
     (let w1 = emit (Distribution own name version (distro_name fname)) w
      in case distribution env (trace w) own name version (distro_name fname) of
           Inl e \<Rightarrow> if e = NotFound then (Inr False, w1) else (Inl e, w1)
         | Inr dist_info \<Rightarrow> (Inr (dist_info \<noteq> []), w1))"

section \<open>The uploader\<close>

text \<open>
  \<^verbatim>\<open>
  def upload(token_fn, path, owner, channels):
      subprocess.check_call(['anaconda', '--quiet', '-t', token_fn,
                             'upload', path,
                             '--user={}'.format(owner),
                             '--channel={}'.format(channels)],
                            env=os.environ)
  \<close>
\<close>

definition upload :: "env \<Rightarrow> string \<Rightarrow> string \<Rightarrow> string \<Rightarrow> string \<Rightarrow> world \<Rightarrow> (error + unit) \<times> world" where
  "upload env token_fn path own channels w =
     (let argv = [''anaconda'', ''--quiet'', ''-t'', token_fn, ''upload'', path,
                  ''--user='' @ own, ''--channel='' @ channels]
      in (case check_call env (trace w) argv of
            Some e \<Rightarrow> Inl e
          | None \<Rightarrow> Inr (),
          emit (Check_call argv) w))"

section \<open>The batch orchestrator\<close>

text \<open>Lines 103 to 108 of the script: the token of the environment, dropped when it is the
  unresolved placeholder of a CI secret.\<close>

definition effective_token :: "env \<Rightarrow> string option" where
  "effective_token env =
     (case environ_token env of
        None \<Rightarrow> None
      | Some s \<Rightarrow> if s \<noteq> [] \<and> prefix ''$('' s then None else Some s)"

text \<open>Python's truth value of \<^verbatim>\<open>token\<close>: neither \<^verbatim>\<open>None\<close> nor the empty string.\<close>

definition truthy :: "string option \<Rightarrow> bool" where
  "truthy t = (case t of None \<Rightarrow> False | Some s \<Rightarrow> s \<noteq> [])"

text \<open>Lines 113 to 116: the two directory listings, \<^verbatim>\<open>noarch\<close> first.\<close>

definition list_paths :: "env \<Rightarrow> world \<Rightarrow> (error + string list) \<times> world" where
  "list_paths env w =
     (case listdir env (path_join (croot env) ''noarch'') w of
        (Inl e, w1) \<Rightarrow> (Inl e, w1)
      | (Inr ps, w1) \<Rightarrow>
          (case listdir env (path_join (croot env) (subdir env)) w1 of
             (Inl e, w2) \<Rightarrow> (Inl e, w2)
           | (Inr qs, w2) \<Rightarrow>
               (Inr (map (path_join ''noarch'') ps @ map (path_join (subdir env)) qs), w2)))"

text \<open>
  Lines 117 to 120: \<^verbatim>\<open>[(split_pkg(path)[1], split_pkg(path)[2], path) for path in paths if
  path.endswith('.tar.bz2')]\<close>. The two calls of \<^verbatim>\<open>split_pkg\<close> on one path give the same result,
  so the model makes one; the first path that fails to parse raises.
\<close>

fun built_distributions :: "string list \<Rightarrow> error + (string \<times> string \<times> string) list" where
  "built_distributions [] = Inr []"
| "built_distributions (path # paths) =
     (if suffix ''.tar.bz2'' path then
        (case split_pkg path of
           Inl e \<Rightarrow> Inl e
         | Inr (plat, name, ver, build) \<Rightarrow>
             (case built_distributions paths of
                Inl e \<Rightarrow> Inl e
              | Inr ds \<Rightarrow> Inr ((name, ver, path) # ds)))
      else built_distributions paths)"

text \<open>
  Lines 123/124 and 129/130: \<^verbatim>\<open>[path for name, version, path in built_distributions if
  built_distribution_already_exists(...)]\<close> with \<open>want = True\<close>, and the same comprehension
  under \<^verbatim>\<open>if not\<close> with \<open>want = False\<close>. Each makes one lookup per distribution.
\<close>

fun select_distributions ::
  "env \<Rightarrow> cli \<Rightarrow> string \<Rightarrow> bool \<Rightarrow> (string \<times> string \<times> string) list \<Rightarrow> world
     \<Rightarrow> (error + string list) \<times> world" where
  "select_distributions env c own want [] w = (Inr [], w)"
| "select_distributions env c own want ((name, version, path) # ds) w =
     (case built_distribution_already_exists env c name version path own w of
        (Inl e, w1) \<Rightarrow> (Inl e, w1)
      | (Inr ex, w1) \<Rightarrow>
          (case select_distributions env c own want ds w1 of
             (Inl e, w2) \<Rightarrow> (Inl e, w2)
           | (Inr ps, w2) \<Rightarrow> (Inr (if ex = want then path # ps else ps), w2)))"

text \<open>Lines 113 to 130: enumeration and classification, returning
  \<open>(existing_distributions, new_distributions)\<close>.\<close>

definition classify :: "env \<Rightarrow> args \<Rightarrow> cli \<Rightarrow> world \<Rightarrow> (error + string list \<times> string list) \<times> world" where
  "classify env a c w =
     (case list_paths env w of
        (Inl e, w1) \<Rightarrow> (Inl e, w1)
      | (Inr paths, w1) \<Rightarrow>
          (case built_distributions paths of
             Inl e \<Rightarrow> (Inl e, w1)
           | Inr ds \<Rightarrow>
               (case select_distributions env c (owner a) True ds w1 of
                  (Inl e, w2) \<Rightarrow> (Inl e, w2)
                | (Inr existing, w2) \<Rightarrow>
                    (case select_distributions env c (owner a) False ds
                            (fold (\<lambda>d. emit (Print (Already_exists d (owner a)))) existing w2) of
                       (Inl e, w3) \<Rightarrow> (Inl e, w3)
                     | (Inr new, w3) \<Rightarrow> (Inr (existing, new), w3)))))"

text \<open>Lines 135 to 137: the loop over the new distributions inside the \<^verbatim>\<open>with\<close> block.\<close>

fun upload_all :: "env \<Rightarrow> string \<Rightarrow> string \<Rightarrow> string list \<Rightarrow> string \<Rightarrow> world \<Rightarrow> (error + unit) \<times> world" where
  "upload_all env own chan [] token_fn w = (Inr (), w)"
| "upload_all env own chan (path # paths) token_fn w =
     (case upload env token_fn path own chan w of
        (Inl e, w1) \<Rightarrow> (Inl e, w1)
      | (Inr u, w1) \<Rightarrow> upload_all env own chan paths token_fn (emit (Print (Uploaded path)) w1))"

text \<open>
  \<^verbatim>\<open>
  def upload_or_check(recipe_dir, owner, channel, variant):
      token = os.environ.get('BINSTAR_TOKEN')
      if token and token.startswith('$('):
          token = None
      cli = get_server_api(token=token)
      ...
      if token:
          with get_temp_token(cli.token) as token_fn:
              for path in new_distributions:
                  upload(token_fn, path, owner, channel)
                  print('Uploaded {}'.format(path))
          return True
      else:
          for path in new_distributions:
              print("Distribution {} is new for {}, but no upload is taking place "
                  "because the BINSTAR_TOKEN is missing.".format(path, owner))
          return False
  \<close>
\<close>

definition upload_or_check :: "env \<Rightarrow> args \<Rightarrow> world \<Rightarrow> (error + bool) \<times> world" where
  "upload_or_check env a w =
     (case get_server_api (effective_token env) w of
        (c, w0) \<Rightarrow>
          (case classify env a c w0 of
             (Inl e, w1) \<Rightarrow> (Inl e, w1)
           | (Inr (existing, new), w1) \<Rightarrow>
               if truthy (effective_token env) then
                 (case get_temp_token env (token c) (upload_all env (owner a) (channel a) new) w1 of
                    (Inl e, w2) \<Rightarrow> (Inl e, w2)
                  | (Inr u, w2) \<Rightarrow> (Inr True, w2))
               else
                 (Inr False, fold (\<lambda>p. emit (Print (New_but_no_token p (owner a)))) new w1)))"

section \<open>The retry wrapper\<close>

text \<open>
  \<^verbatim>\<open>
  def retry_upload_or_check(recipe_dir, owner, channel, variant):
      for i in range(1, 10):
          try:
              res = upload_or_check(recipe_dir, owner, channel, variant)
              return res
          except Exception as e:
              timeout = i ** 2
              print("Failed to upload due to {}.  Trying again in {} seconds".format(e, timeout))
              time.sleep(timeout)
      raise TimeoutError("Did not manage to upload package.  Failing.")
  \<close>
  \<open>retry_loop\<close> is the \<^verbatim>\<open>for\<close> loop over the values of \<open>i\<close> that are left.
\<close>

fun retry_loop :: "env \<Rightarrow> args \<Rightarrow> nat list \<Rightarrow> world \<Rightarrow> (error + bool) \<times> world" where
  "retry_loop env a [] w = (Inl TimeoutError, w)"
| "retry_loop env a (i # js) w =
     (case upload_or_check env a w of
        (Inr res, w1) \<Rightarrow> (Inr res, w1)
      | (Inl e, w1) \<Rightarrow>
          retry_loop env a js (emit (Sleep (i ^ 2)) (emit (Print (Failed_retry e (i ^ 2))) w1)))"

definition retry_upload_or_check :: "env \<Rightarrow> args \<Rightarrow> world \<Rightarrow> (error + bool) \<times> world" where
  "retry_upload_or_check env a w = retry_loop env a [1..<10] w"

section \<open>Reading a trace\<close>

text \<open>The events of a trace that are attempts of the batch (each attempt builds the remote
  client once, first of all), uploads, sleeps and skip messages.\<close>

fun is_server_api :: "event \<Rightarrow> bool" where
  "is_server_api (Server_api t) = True"
| "is_server_api e = False"

fun is_check_call :: "event \<Rightarrow> bool" where
  "is_check_call (Check_call argv) = True"
| "is_check_call e = False"

fun is_skip_message :: "event \<Rightarrow> bool" where
  "is_skip_message (Print (New_but_no_token p own)) = True"
| "is_skip_message e = False"

fun is_failed_retry :: "event \<Rightarrow> bool" where
  "is_failed_retry (Print (Failed_retry e n)) = True"
| "is_failed_retry e = False"

fun sleeps :: "event list \<Rightarrow> nat list" where
  "sleeps [] = []"
| "sleeps (Sleep n # evs) = n # sleeps evs"
| "sleeps (e # evs) = sleeps evs"

definition attempts :: "event list \<Rightarrow> nat" where
  "attempts evs = length (filter is_server_api evs)"

definition uploads :: "event list \<Rightarrow> nat" where
  "uploads evs = length (filter is_check_call evs)"

text \<open>The events of enumeration and classification, and the events one attempt of the batch
  can add after it has built the remote client.\<close>

fun check_event :: "event \<Rightarrow> bool" where
  "check_event (Listdir d) = True"
| "check_event (Distribution own n v d) = True"
| "check_event (Print (Already_exists d own)) = True"
| "check_event e = False"

fun batch_event :: "event \<Rightarrow> bool" where
  "batch_event (Server_api t) = False"
| "batch_event (Sleep n) = False"
| "batch_event (Print (Failed_retry e n)) = False"
| "batch_event e = True"

definition extends :: "(event \<Rightarrow> bool) \<Rightarrow> world \<Rightarrow> world \<Rightarrow> bool" where
  "extends P w w' = (\<exists>evs. trace w' = trace w @ evs \<and> list_all P evs)"

section \<open>Example environments\<close>

text \<open>An environment whose collaborators answer the same at all times: \<open>ls\<close> lists a
  directory, \<open>remote\<close> answers the lookup of a distribution name, \<open>up\<close> is the outcome of
  every upload.\<close>

definition fixed_env ::
  "string option \<Rightarrow> (string \<Rightarrow> error + string list) \<Rightarrow> (string \<Rightarrow> error + (string \<times> string) list)
     \<Rightarrow> error option \<Rightarrow> env" where
  "fixed_env tok ls remote up =
     \<lparr>environ_token = tok, croot = ''/bld'', subdir = ''linux-64'',
      os_listdir = (\<lambda>h d. ls d),
      distribution = (\<lambda>h own name version d. remote d),
      mkdtemp = (\<lambda>h. ''/tmp/tmp0''),
      check_call = (\<lambda>h argv. up)\<rparr>"

definition example_args :: args where
  "example_args = \<lparr>recipe_dir = ''recipe'', owner = ''conda-forge'', channel = ''main'', variant = []\<rparr>"

definition initial_world :: world where
  "initial_world = \<lparr>trace = [], tmp = []\<rparr>"

text \<open>The build directories cannot be listed.\<close>

definition unlistable_env :: env where
  "unlistable_env = fixed_env None (\<lambda>d. Inl OSError) (\<lambda>d. Inl NotFound) None"

text \<open>The remote index does not answer.\<close>

definition offline_env :: env where
  "offline_env = fixed_env None (\<lambda>d. Inr [''foo-1.0-0.tar.bz2'']) (\<lambda>d. Inl ConnectionError) None"

text \<open>Nothing is on the remote index, and there is no token.\<close>

definition empty_remote_env :: env where
  "empty_remote_env =
     fixed_env None (\<lambda>d. Inr [''foo-1.0-0.tar.bz2'', ''repodata.json'']) (\<lambda>d. Inl NotFound) None"

text \<open>A token is set and the one built distribution is already on the remote index.\<close>

definition all_exist_env :: env where
  "all_exist_env =
     fixed_env (Some ''secret'') (\<lambda>d. if d = ''/bld/noarch'' then Inr [] else Inr [''foo-1.0-0.tar.bz2''])
       (\<lambda>d. Inr [(''basename'', d)]) None"

text \<open>No token is set and nothing was built.\<close>

definition nothing_built_env :: env where
  "nothing_built_env = fixed_env None (\<lambda>d. Inr []) (\<lambda>d. Inl NotFound) None"

text \<open>The token of the environment is the unresolved placeholder of a CI secret; one
  distribution was built and is not on the remote index.\<close>

definition placeholder_env :: env where
  "placeholder_env =
     fixed_env (Some ''$(BINSTAR_TOKEN)'')
       (\<lambda>d. if d = ''/bld/noarch'' then Inr [] else Inr [''bar-2.0-0.tar.bz2''])
       (\<lambda>d. Inl NotFound) None"

text \<open>A file with the archive suffix and no hyphen was built for \<^verbatim>\<open>noarch\<close>.\<close>

definition malformed_env :: env where
  "malformed_env =
     fixed_env None (\<lambda>d. if d = ''/bld/noarch'' then Inr [''foo.tar.bz2''] else Inr [])
       (\<lambda>d. Inl NotFound) None"

text \<open>A token is set, one distribution is new, and the upload command fails.\<close>

definition failing_upload_env :: env where
  "failing_upload_env =
     fixed_env (Some ''secret'')
       (\<lambda>d. if d = ''/bld/noarch'' then Inr [] else Inr [''bar-2.0-0.tar.bz2''])
       (\<lambda>d. Inl NotFound) (Some CalledProcessError)"

text \<open>The events of one attempt that fails on a malformed name, followed by those of the
  \<^verbatim>\<open>except\<close> branch of attempt \<open>i\<close>.\<close>

definition malformed_attempt :: "env \<Rightarrow> nat \<Rightarrow> event list" where
  "malformed_attempt env i =
     [Server_api (effective_token env),
      Listdir (path_join (croot env) ''noarch''),
      Listdir (path_join (croot env) (subdir env)),
      Print (Failed_retry ValueError (i ^ 2)),
      Sleep (i ^ 2)]"

text \<open>The build directories can be listed, and are empty, once the run has slept a second.\<close>

definition flaky_env :: env where
  "flaky_env =
     \<lparr>environ_token = None, croot = ''/bld'', subdir = ''linux-64'',
      os_listdir = (\<lambda>h d. if Sleep 1 \<in> set h then Inr [] else Inl OSError),
      distribution = (\<lambda>h own name version d. Inl NotFound),
      mkdtemp = (\<lambda>h. ''/tmp/tmp0''),
      check_call = (\<lambda>h argv. None)\<rparr>"

text \<open>The events of one attempt that cannot list the first directory, followed by those of
  the \<^verbatim>\<open>except\<close> branch of attempt \<open>i\<close>.\<close>

definition unlistable_attempt :: "nat \<Rightarrow> event list" where
  "unlistable_attempt i =
     [Server_api None, Listdir ''/bld/noarch'', Print (Failed_retry OSError (i ^ 2)), Sleep (i ^ 2)]"

text \<open>The enumeration of the attempt that starts in \<open>w\<close> returns and yields a file that ends
  in \<^verbatim>\<open>.tar.bz2\<close> and does not parse.\<close>

definition enumerates_malformed :: "env \<Rightarrow> world \<Rightarrow> bool" where
  "enumerates_malformed env w =
     (case list_paths env (emit (Server_api (effective_token env)) w) of
        (Inl e, w1) \<Rightarrow> False
      | (Inr paths, w1) \<Rightarrow> list_ex (\<lambda>p. suffix ''.tar.bz2'' p \<and> isl (split_pkg p)) paths)"





section \<open>Unfolding a run on a concrete environment\<close>

lemmas run_defs =
  upload_or_check_def get_server_api_def classify_def list_paths_def listdir_def
  built_distribution_already_exists_def get_temp_token_def upload_def effective_token_def
  truthy_def emit_def path_join_def distro_name_def os_path_split_def split_pkg_def rsplit1_def
  suffix_to_prefix fixed_env_def example_args_def initial_world_def attempts_def uploads_def
  Let_def

section \<open>Properties of the parser\<close>

lemma split_on_no_sep: "c \<notin> set s \<Longrightarrow> split_on c s = [s]"
  by (induction s) auto

lemma split_on_append_sep:
  "c \<notin> set s \<Longrightarrow> split_on c (s @ c # t) = s # split_on c t"
  by (induction s) auto

lemma rsplit1_append_sep:
  "c \<notin> set t \<Longrightarrow> rsplit1 c (s @ c # t) = [s, t]"
proof -
  assume t: "c \<notin> set t"
  have d: "dropWhile (\<lambda>x. x \<noteq> c) (rev t @ c # rev s) = c # rev s"
    using t by (subst dropWhile_append2) auto
  have k: "takeWhile (\<lambda>x. x \<noteq> c) (rev t @ c # rev s) = rev t"
    using t by (subst takeWhile_append2) auto
  show ?thesis
    by (simp add: rsplit1_def d k)
qed

lemma suffix_tar_bz2_append: "suffix ''.tar.bz2'' (s @ ''.tar.bz2'')"
  by (rule suffixI) (rule refl)

text \<open>
  Claim C4. A path \<^verbatim>\<open>platform/name-version-build.tar.bz2\<close> with exactly one slash and with no
  hyphen in the version and in the build string parses to exactly
  \<open>(platform, name, version, build)\<close>; the name may contain hyphens, since both splits are
  made at the rightmost hyphen. A path that does not end in \<^verbatim>\<open>.tar.bz2\<close> raises the parser's
  \<open>RuntimeError\<close>.
\<close>

theorem split_pkg_spec:
  "(CHR ''/'' \<notin> set plat \<and> CHR ''/'' \<notin> set name \<and> CHR ''/'' \<notin> set ver \<and> CHR ''/'' \<notin> set build
      \<and> CHR ''-'' \<notin> set ver \<and> CHR ''-'' \<notin> set build
    \<longrightarrow> split_pkg (plat @ ''/'' @ name @ ''-'' @ ver @ ''-'' @ build @ ''.tar.bz2'')
          = Inr (plat, name, ver, build))
   \<and> (\<not> suffix ''.tar.bz2'' p \<longrightarrow> split_pkg p = Inl RuntimeError)"
proof (intro conjI impI)
  assume h: "CHR ''/'' \<notin> set plat \<and> CHR ''/'' \<notin> set name \<and> CHR ''/'' \<notin> set ver
      \<and> CHR ''/'' \<notin> set build \<and> CHR ''-'' \<notin> set ver \<and> CHR ''-'' \<notin> set build"
  define stem where "stem = plat @ ''/'' @ name @ ''-'' @ ver @ ''-'' @ build"
  define base where "base = name @ ''-'' @ ver @ ''-'' @ build"
  have whole: "plat @ ''/'' @ name @ ''-'' @ ver @ ''-'' @ build @ ''.tar.bz2'' = stem @ ''.tar.bz2''"
    by (simp add: stem_def)
  have strip: "take (length (stem @ ''.tar.bz2'') - 8) (stem @ ''.tar.bz2'') = stem"
    by simp
  have "CHR ''/'' \<notin> set base"
    using h by (simp add: base_def)
  then have slash: "split_on CHR ''/'' stem = [plat, base]"
    using h split_on_append_sep [of "CHR ''/''" plat base]
    by (simp add: stem_def base_def split_on_no_sep)
  have build: "rsplit1 CHR ''-'' base = [name @ ''-'' @ ver, build]"
    using h rsplit1_append_sep [of "CHR ''-''" build "name @ ''-'' @ ver"]
    by (simp add: base_def)
  have ver: "rsplit1 CHR ''-'' (name @ ''-'' @ ver) = [name, ver]"
    using h rsplit1_append_sep [of "CHR ''-''" ver name] by simp
  have "split_pkg (stem @ ''.tar.bz2'') = Inr (plat, name, ver, build)"
    unfolding split_pkg_def strip
    by (simp only: suffix_tar_bz2_append slash build ver
        if_False list.case prod.case simp_thms)
  then show "split_pkg (plat @ ''/'' @ name @ ''-'' @ ver @ ''-'' @ build @ ''.tar.bz2'')
      = Inr (plat, name, ver, build)"
    by (simp only: whole)
next
  assume "\<not> suffix ''.tar.bz2'' p"
  then show "split_pkg p = Inl RuntimeError"
    by (simp add: split_pkg_def)
qed

theorem split_pkg_spec_witness:
  "split_pkg ''linux-64/scikit-learn-0.24.2-py39_0.tar.bz2''
     = Inr (''linux-64'', ''scikit-learn'', ''0.24.2'', ''py39_0'')
   \<and> split_pkg ''noarch/foo-1.0-0.conda'' = Inl RuntimeError"
  using split_pkg_spec [of "''linux-64''" "''scikit-learn''" "''0.24.2''" "''py39_0''"
      "''noarch/foo-1.0-0.conda''"]
  by (simp add: suffix_to_prefix)

section \<open>What each operation adds to the world\<close>

lemma trace_emit: "trace (emit e w) = trace w @ [e]"
  by (simp add: emit_def)

lemma tmp_emit: "tmp (emit e w) = tmp w"
  by (simp add: emit_def)

lemma trace_fold_emit: "trace (fold (\<lambda>x. emit (f x)) xs w) = trace w @ map f xs"
  by (induction xs arbitrary: w) (simp_all add: trace_emit)

lemma tmp_fold_emit: "tmp (fold (\<lambda>x. emit (f x)) xs w) = tmp w"
  by (induction xs arbitrary: w) (simp_all add: tmp_emit)

lemma extends_refl: "extends P w w"
  by (simp add: extends_def)

lemma extends_trans: "extends P w w1 \<Longrightarrow> extends P w1 w2 \<Longrightarrow> extends P w w2"
  by (auto simp: extends_def)

lemma extends_emit: "P e \<Longrightarrow> extends P w (emit e w)"
  by (simp add: extends_def trace_emit)

lemma extends_mono: "extends P w w' \<Longrightarrow> (\<And>e. P e \<Longrightarrow> Q e) \<Longrightarrow> extends Q w w'"
  by (auto simp: extends_def list_all_iff)

lemma check_event_batch: "check_event e \<Longrightarrow> batch_event e"
  by (cases e rule: check_event.cases) simp_all

lemma built_distribution_already_exists_world:
  "built_distribution_already_exists env c name version fname own w = (r, w') \<Longrightarrow>
     w' = emit (Distribution own name version (distro_name fname)) w"
  by (auto simp: built_distribution_already_exists_def Let_def split: sum.splits if_splits)

lemma select_distributions_world:
  "select_distributions env c own want ds w = (r, w') \<Longrightarrow> extends check_event w w' \<and> tmp w' = tmp w"
proof (induction ds arbitrary: w r w')
  case Nil
  then show ?case by (simp add: extends_refl)
next
  case (Cons d ds)
  obtain name version path where d: "d = (name, version, path)"
    by (cases d) auto
  obtain r1 w1 where b: "built_distribution_already_exists env c name version path own w = (r1, w1)"
    by fastforce
  have w1: "extends check_event w w1 \<and> tmp w1 = tmp w"
    using built_distribution_already_exists_world [OF b]
    by (simp add: extends_emit tmp_emit)
  show ?case
  proof (cases r1)
    case (Inl e)
    with Cons.prems b d w1 show ?thesis by simp
  next
    case (Inr ex)
    obtain r2 w2 where s: "select_distributions env c own want ds w1 = (r2, w2)"
      by fastforce
    have "w' = w2"
      using Cons.prems b d Inr s by (auto split: sum.splits)
    with Cons.IH [OF s] w1 show ?thesis
      by (auto intro: extends_trans)
  qed
qed

lemma list_paths_world:
  "list_paths env w = (r, w') \<Longrightarrow> extends check_event w w' \<and> tmp w' = tmp w"
  by (auto simp: list_paths_def listdir_def extends_def trace_emit tmp_emit split: sum.splits)

lemma classify_world:
  assumes "classify env a c w = (r, w')"
  shows "extends check_event w w' \<and> tmp w' = tmp w"
proof -
  obtain r1 w1 where l: "list_paths env w = (r1, w1)" by fastforce
  note w1 = list_paths_world [OF l]
  show ?thesis
  proof (cases r1)
    case (Inl e)
    with assms l w1 show ?thesis by (simp add: classify_def)
  next
    case (Inr paths)
    show ?thesis
    proof (cases "built_distributions paths")
      case (Inl e)
      with assms l Inr w1 show ?thesis by (simp add: classify_def)
    next
      case ds: (Inr ds)
      obtain r2 w2 where s2: "select_distributions env c (owner a) True ds w1 = (r2, w2)"
        by fastforce
      note w2 = select_distributions_world [OF s2]
      show ?thesis
      proof (cases r2)
        case (Inl e)
        with assms l Inr ds s2 w1 w2 show ?thesis
          by (auto simp: classify_def intro: extends_trans)
      next
        case ex: (Inr existing)
        define w3 where "w3 = fold (\<lambda>d. emit (Print (Already_exists d (owner a)))) existing w2"
        have w3: "extends check_event w2 w3 \<and> tmp w3 = tmp w2"
          by (simp add: w3_def extends_def trace_fold_emit tmp_fold_emit list_all_iff)
        obtain r4 w4 where s4: "select_distributions env c (owner a) False ds w3 = (r4, w4)"
          by fastforce
        note w4 = select_distributions_world [OF s4]
        have "w' = w4"
          using assms l Inr ds s2 ex s4
          by (auto simp: classify_def w3_def split: sum.splits)
        with w1 w2 w3 w4 show ?thesis
          by (auto intro: extends_trans)
      qed
    qed
  qed
qed


lemma upload_world:
  "upload env token_fn path own chan w = (r, w') \<Longrightarrow> \<exists>argv. w' = emit (Check_call argv) w"
  by (auto simp: upload_def Let_def)

lemma upload_all_world:
  "upload_all env own chan paths token_fn w = (r, w') \<Longrightarrow> extends batch_event w w' \<and> tmp w' = tmp w"
proof (induction paths arbitrary: w r w')
  case Nil
  then show ?case by (simp add: extends_refl)
next
  case (Cons path paths)
  obtain r1 w1 where u: "upload env token_fn path own chan w = (r1, w1)"
    by fastforce
  from upload_world [OF u] have w1: "extends batch_event w w1 \<and> tmp w1 = tmp w"
    by (auto simp: extends_emit tmp_emit)
  show ?case
  proof (cases r1)
    case (Inl e)
    with Cons.prems u w1 show ?thesis by simp
  next
    case (Inr x)
    define w2 where "w2 = emit (Print (Uploaded path)) w1"
    have w2: "extends batch_event w1 w2 \<and> tmp w2 = tmp w1"
      by (simp add: w2_def extends_emit tmp_emit)
    have "upload_all env own chan paths token_fn w2 = (r, w')"
      using Cons.prems u Inr by (simp add: w2_def)
    from Cons.IH [OF this] w1 w2 show ?thesis
      by (auto intro: extends_trans)
  qed
qed

lemma get_temp_token_world:
  assumes body: "\<And>fn w1 r1 w2. body fn w1 = (r1, w2) \<Longrightarrow> extends batch_event w1 w2"
    and run: "get_temp_token env tok body w = (r, w')"
  shows "extends batch_event w w'"
proof (cases tok)
  case None
  with run show ?thesis
    by (auto simp: get_temp_token_def Let_def extends_def trace_emit)
next
  case (Some s)
  define dn where "dn = mkdtemp env (trace w)"
  define fn where "fn = path_join dn ''binstar.token''"
  define w1 where "w1 = (emit (Write_file fn s) (emit (Mkdtemp dn) w))\<lparr>tmp := tmp (emit (Mkdtemp dn) w) @ [(dn, s)]\<rparr>"
  have w1: "extends batch_event w w1"
    by (simp add: w1_def extends_def trace_emit)
  obtain r2 w2 where b: "body fn w1 = (r2, w2)"
    by fastforce
  note w2 = body [OF b]
  have "w' = w2 \<or> w' = (emit (Rmtree dn) w2)\<lparr>tmp := filter (\<lambda>(d, _). d \<noteq> dn) (tmp w2)\<rparr>"
    using run Some b
    by (auto simp: get_temp_token_def Let_def dn_def fn_def w1_def split: sum.splits)
  then have "extends batch_event w2 w'"
    by (auto simp: extends_def trace_emit)
  with w1 w2 show ?thesis
    by (blast intro: extends_trans)
qed

lemma upload_or_check_trace:
  assumes "upload_or_check env a w = (r, w')"
  shows "\<exists>evs. trace w' = trace w @ Server_api (effective_token env) # evs \<and> list_all batch_event evs"
proof -
  define c :: cli where "c = \<lparr>token = effective_token env\<rparr>"
  define w0 where "w0 = emit (Server_api (effective_token env)) w"
  obtain r1 w1 where cl: "classify env a c w0 = (r1, w1)"
    by fastforce
  from classify_world [OF cl] have w1: "extends batch_event w0 w1"
    by (auto intro: extends_mono check_event_batch)
  have "extends batch_event w1 w'"
  proof (cases r1)
    case (Inl e)
    with assms cl show ?thesis
      by (simp add: upload_or_check_def get_server_api_def c_def w0_def extends_refl)
  next
    case (Inr p)
    obtain existing new where p: "p = (existing, new)" by (cases p) auto
    show ?thesis
    proof (cases "truthy (effective_token env)")
      case True
      obtain r2 w2 where g: "get_temp_token env (token c) (upload_all env (owner a) (channel a) new) w1 = (r2, w2)"
        by fastforce
      have "extends batch_event w1 w2"
        by (rule get_temp_token_world [OF _ g]) (simp add: upload_all_world)
      moreover have "w' = w2"
        using assms cl Inr p True g
        by (auto simp: upload_or_check_def get_server_api_def c_def w0_def split: sum.splits)
      ultimately show ?thesis by simp
    next
      case False
      then have "w' = fold (\<lambda>p. emit (Print (New_but_no_token p (owner a)))) new w1"
        using assms cl Inr p
        by (simp add: upload_or_check_def get_server_api_def c_def w0_def)
      then show ?thesis
        by (simp add: extends_def trace_fold_emit list_all_iff)
    qed
  qed
  with w1 have "extends batch_event w0 w'"
    by (rule extends_trans)
  then show ?thesis
    by (auto simp: extends_def w0_def trace_emit)
qed

lemma sleeps_append: "sleeps (xs @ ys) = sleeps xs @ sleeps ys"
  by (induction xs rule: sleeps.induct) simp_all

lemma batch_events_sleeps: "list_all batch_event evs \<Longrightarrow> sleeps evs = []"
  by (induction evs rule: sleeps.induct) simp_all

lemma batch_events_attempts: "list_all batch_event evs \<Longrightarrow> filter is_server_api evs = []"
proof (induction evs)
  case Nil
  show ?case by simp
next
  case (Cons e evs)
  then show ?case by (cases e) simp_all
qed

lemma retry_loop_spec:
  "retry_loop env a js w = (r, w') \<Longrightarrow>
     \<exists>evs. trace w' = trace w @ evs \<and>
       (case r of
          Inl e \<Rightarrow> e = TimeoutError \<and> attempts evs = length js \<and> sleeps evs = map (\<lambda>i. i ^ 2) js
        | Inr b \<Rightarrow>
            (\<exists>k<length js. attempts evs = k + 1 \<and> sleeps evs = map (\<lambda>i. i ^ 2) (take k js))
            \<and> (\<exists>w0. upload_or_check env a w0 = (Inr b, w')))"
proof (induction js arbitrary: w r w')
  case Nil
  then show ?case by (auto simp: attempts_def)
next
  case (Cons i js)
  obtain r1 w1 where u: "upload_or_check env a w = (r1, w1)"
    by fastforce
  from upload_or_check_trace [OF u] obtain evs1 where
    evs1: "trace w1 = trace w @ Server_api (effective_token env) # evs1" "list_all batch_event evs1"
    by blast
  have a1: "attempts (Server_api (effective_token env) # evs1) = 1"
    and s1: "sleeps (Server_api (effective_token env) # evs1) = []"
    using evs1(2) by (simp_all add: attempts_def batch_events_attempts batch_events_sleeps)
  show ?case
  proof (cases r1)
    case (Inr b)
    with Cons.prems u have "r = Inr b" "w' = w1" by simp_all
    with evs1 a1 s1 u Inr show ?thesis
      by (intro exI [of _ "Server_api (effective_token env) # evs1"]) auto
  next
    case (Inl e)
    define w2 where "w2 = emit (Sleep (i ^ 2)) (emit (Print (Failed_retry e (i ^ 2))) w1)"
    have "retry_loop env a js w2 = (r, w')"
      using Cons.prems u Inl by (simp add: w2_def)
    from Cons.IH [OF this] obtain evs2 where
      evs2: "trace w' = trace w2 @ evs2"
        "case r of
           Inl e \<Rightarrow> e = TimeoutError \<and> attempts evs2 = length js \<and> sleeps evs2 = map (\<lambda>i. i ^ 2) js
         | Inr b \<Rightarrow>
            (\<exists>k<length js. attempts evs2 = k + 1 \<and> sleeps evs2 = map (\<lambda>i. i ^ 2) (take k js))
            \<and> (\<exists>w0. upload_or_check env a w0 = (Inr b, w'))"
      by blast
    define evs where "evs = (Server_api (effective_token env) # evs1) @ [Print (Failed_retry e (i ^ 2)), Sleep (i ^ 2)] @ evs2"
    have t: "trace w' = trace w @ evs"
      using evs1(1) evs2(1) by (simp add: evs_def w2_def trace_emit)
    have att: "attempts evs = 1 + attempts evs2"
      using a1 by (simp add: evs_def attempts_def)
    have "sleeps evs = sleeps (Server_api (effective_token env) # evs1)
        @ sleeps ([Print (Failed_retry e (i ^ 2)), Sleep (i ^ 2)] @ evs2)"
      unfolding evs_def by (rule sleeps_append)
    then have sl: "sleeps evs = i ^ 2 # sleeps evs2"
      by (simp only: s1) simp
    show ?thesis
    proof (cases r)
      case rl: (Inl e')
      with evs2(2) t att sl show ?thesis
        by (intro exI [of _ evs]) simp
    next
      case rr: (Inr b)
      with evs2(2) obtain k where k: "k < length js" "attempts evs2 = k + 1"
        "sleeps evs2 = map (\<lambda>i. i ^ 2) (take k js)"
        and ok: "\<exists>w0. upload_or_check env a w0 = (Inr b, w')"
        by auto
      have "Suc k < length (i # js) \<and> attempts evs = Suc k + 1
          \<and> sleeps evs = map (\<lambda>i. i ^ 2) (take (Suc k) (i # js))"
        using k att sl by simp
      with t ok rr show ?thesis
        by (intro exI [of _ evs]) auto
    qed
  qed
qed

section \<open>Properties of the retry wrapper\<close>

lemma range_nine: "[1..<10] = [1, 2, 3, 4, 5, 6, 7, 8, 9::nat]"
  by code_simp

lemma retry_upload_or_check_unfold:
  "retry_upload_or_check env a w = retry_loop env a [1, 2, 3, 4, 5, 6, 7, 8, 9] w"
  by (simp only: retry_upload_or_check_def range_nine)

lemma squares_upto_nine: "map (\<lambda>i. i ^ 2) [1..<10] = [1, 4, 9, 16, 25, 36, 49, 64, 81::nat]"
  by code_simp

lemma take_range: "k < 9 \<Longrightarrow> take k [1..<10] = [1..<k + 1]"
  by simp

lemma retry_loop_chain:
  assumes fails: "\<forall>i<k. \<exists>e w1. upload_or_check env a (ws i) = (Inl e, w1)
        \<and> ws (Suc i) = emit (Sleep ((Suc i) ^ 2)) (emit (Print (Failed_retry e ((Suc i) ^ 2))) w1)"
    and k: "k < m"
  shows "j \<le> k \<Longrightarrow> retry_loop env a [1..<m] (ws 0) = retry_loop env a [Suc j..<m] (ws j)"
proof (induction j)
  case 0
  show ?case by simp
next
  case (Suc j)
  then have j: "j < k" by simp
  with fails obtain e w1 where
    u: "upload_or_check env a (ws j) = (Inl e, w1)"
    and s: "ws (Suc j) = emit (Sleep ((Suc j) ^ 2)) (emit (Print (Failed_retry e ((Suc j) ^ 2))) w1)"
    by blast
  from j k have "[Suc j..<m] = Suc j # [Suc (Suc j)..<m]"
    by (simp add: upt_conv_Cons)
  then have "retry_loop env a [Suc j..<m] (ws j) = retry_loop env a [Suc (Suc j)..<m] (ws (Suc j))"
    by (simp add: u s)
  with Suc.IH j show ?case by simp
qed

text \<open>
  Claim C2. Let \<open>ws 0\<close> be the world the wrapper starts in and let the first \<open>k\<close> attempts
  raise, attempt \<open>i\<close> being followed by the failure message and a sleep of \<open>i\<^sup>2\<close> seconds, which
  lead to the world \<open>ws i\<close> of the next attempt. When \<open>k < 9\<close> and attempt \<open>k + 1\<close> returns, the
  wrapper returns that result in the world that attempt ended in: nothing is attempted after
  it. When all nine attempts raise, the wrapper raises \<open>TimeoutError\<close> after the ninth sleep.
  Whatever the batch does, the wrapper makes at most 9 attempts; when it raises, the exception
  is \<open>TimeoutError\<close>, 9 attempts were made and the sleeps were of 1, 4, 9, ..., 81 seconds; when
  it returns, \<open>n < 9\<close> attempts failed, followed by sleeps of 1, ..., \<open>n\<^sup>2\<close> seconds, and the
  result and the final world are those of a returning attempt.
\<close>

theorem retry_upload_or_check_spec:
  assumes start: "ws 0 = w"
    and fails: "\<forall>i<k. \<exists>e w1. upload_or_check env a (ws i) = (Inl e, w1)
        \<and> ws (Suc i) = emit (Sleep ((Suc i) ^ 2)) (emit (Print (Failed_retry e ((Suc i) ^ 2))) w1)"
  shows "(k < 9 \<and> upload_or_check env a (ws k) = (Inr b, w') \<longrightarrow>
            retry_upload_or_check env a w = (Inr b, w'))
    \<and> (k = 9 \<longrightarrow> retry_upload_or_check env a w = (Inl TimeoutError, ws 9))
    \<and> (\<forall>r w''. retry_upload_or_check env a w = (r, w'') \<longrightarrow>
          (\<exists>evs. trace w'' = trace w @ evs \<and> attempts evs \<le> 9 \<and>
             (case r of
                Inl e \<Rightarrow> e = TimeoutError \<and> attempts evs = 9
                         \<and> sleeps evs = [1, 4, 9, 16, 25, 36, 49, 64, 81]
              | Inr b \<Rightarrow> (\<exists>n<9. attempts evs = n + 1 \<and> sleeps evs = map (\<lambda>i. i ^ 2) [1..<n + 1])
                         \<and> (\<exists>w0. upload_or_check env a w0 = (Inr b, w'')))))"
proof (intro conjI impI allI)
  assume ok: "k < 9 \<and> upload_or_check env a (ws k) = (Inr b, w')"
  then have "k < 10" by simp
  from retry_loop_chain [OF fails this, of k]
  have "retry_loop env a [1..<10] (ws 0) = retry_loop env a [Suc k..<10] (ws k)"
    by simp
  moreover from ok have "[Suc k..<10] = Suc k # [Suc (Suc k)..<10]"
    by (simp add: upt_conv_Cons)
  ultimately show "retry_upload_or_check env a w = (Inr b, w')"
    using ok start by (simp add: retry_upload_or_check_def)
next
  assume k9: "k = 9"
  then have "k < 10" by simp
  from retry_loop_chain [OF fails this, of k]
  have "retry_loop env a [1..<10] (ws 0) = retry_loop env a [Suc k..<10] (ws k)"
    by simp
  with k9 start show "retry_upload_or_check env a w = (Inl TimeoutError, ws 9)"
    by (simp add: retry_upload_or_check_def)
next
  fix r w''
  assume run: "retry_upload_or_check env a w = (r, w'')"
  then have "retry_loop env a [1..<10] w = (r, w'')"
    by (simp add: retry_upload_or_check_def)
  from retry_loop_spec [OF this] obtain evs where
    t: "trace w'' = trace w @ evs" and
    c: "case r of
          Inl e \<Rightarrow> e = TimeoutError \<and> attempts evs = length [1..<10::nat]
                   \<and> sleeps evs = map (\<lambda>i. i ^ 2) [1..<10]
        | Inr b \<Rightarrow>
            (\<exists>k<length [1..<10::nat]. attempts evs = k + 1 \<and> sleeps evs = map (\<lambda>i. i ^ 2) (take k [1..<10]))
            \<and> (\<exists>w0. upload_or_check env a w0 = (Inr b, w''))"
    by blast
  show "\<exists>evs. trace w'' = trace w @ evs \<and> attempts evs \<le> 9 \<and>
             (case r of
                Inl e \<Rightarrow> e = TimeoutError \<and> attempts evs = 9
                         \<and> sleeps evs = [1, 4, 9, 16, 25, 36, 49, 64, 81]
              | Inr b \<Rightarrow> (\<exists>n<9. attempts evs = n + 1 \<and> sleeps evs = map (\<lambda>i. i ^ 2) [1..<n + 1])
                         \<and> (\<exists>w0. upload_or_check env a w0 = (Inr b, w'')))"
  proof (cases r)
    case (Inl e)
    with c have e: "e = TimeoutError" "attempts evs = 9"
      and "sleeps evs = map (\<lambda>i. i ^ 2) [1..<10]"
      by simp_all
    then have "sleeps evs = [1, 4, 9, 16, 25, 36, 49, 64, 81]"
      by (simp only: squares_upto_nine)
    with e t Inl show ?thesis
      by (intro exI [of _ evs]) simp
  next
    case (Inr b)
    with c obtain n where n: "n < 9" "attempts evs = n + 1"
      "sleeps evs = map (\<lambda>i. i ^ 2) (take n [1..<10])"
      and ok: "\<exists>w0. upload_or_check env a w0 = (Inr b, w'')"
      by auto
    from n have s: "sleeps evs = map (\<lambda>i. i ^ 2) [1..<n + 1]"
      by (simp only: take_range)
    with t Inr n ok show ?thesis
      by (intro exI [of _ evs]) auto
  qed
qed

lemma upload_or_check_unlistable:
  "upload_or_check unlistable_env example_args w
     = (Inl OSError, w\<lparr>trace := trace w @ [Server_api None, Listdir ''/bld/noarch'']\<rparr>)"
  by (simp add: unlistable_env_def run_defs)

theorem retry_upload_or_check_spec_witness:
  "retry_upload_or_check flaky_env example_args initial_world
     = (Inr False,
        \<lparr>trace = [Server_api None, Listdir ''/bld/noarch'', Print (Failed_retry OSError 1), Sleep 1,
                  Server_api None, Listdir ''/bld/noarch'', Listdir ''/bld/linux-64''],
          tmp = []\<rparr>)
   \<and> retry_upload_or_check unlistable_env example_args initial_world
     = (Inl TimeoutError,
        \<lparr>trace = concat (map unlistable_attempt [1, 2, 3, 4, 5, 6, 7, 8, 9]), tmp = []\<rparr>)
   \<and> sleeps (concat (map unlistable_attempt [1, 2, 3, 4, 5, 6, 7, 8, 9]))
       = [1, 4, 9, 16, 25, 36, 49, 64, 81]
   \<and> attempts (concat (map unlistable_attempt [1, 2, 3, 4, 5, 6, 7, 8, 9])) = 9"
proof -
  define w1 where "w1 = \<lparr>trace = [Server_api None, Listdir ''/bld/noarch'',
      Print (Failed_retry OSError 1), Sleep 1], tmp = []\<rparr>"
  define ws where "ws = (\<lambda>i::nat. if i = 0 then initial_world else w1)"
  have f1: "\<forall>i<1. \<exists>e w2. upload_or_check flaky_env example_args (ws i) = (Inl e, w2)
        \<and> ws (Suc i) = emit (Sleep ((Suc i) ^ 2)) (emit (Print (Failed_retry e ((Suc i) ^ 2))) w2)"
    by (simp add: ws_def w1_def flaky_env_def run_defs)
  have s1: "upload_or_check flaky_env example_args (ws 1)
     = (Inr False,
        \<lparr>trace = [Server_api None, Listdir ''/bld/noarch'', Print (Failed_retry OSError 1), Sleep 1,
                  Server_api None, Listdir ''/bld/noarch'', Listdir ''/bld/linux-64''],
          tmp = []\<rparr>)"
    by (simp add: ws_def w1_def flaky_env_def run_defs)
  have a: "retry_upload_or_check flaky_env example_args initial_world
     = (Inr False,
        \<lparr>trace = [Server_api None, Listdir ''/bld/noarch'', Print (Failed_retry OSError 1), Sleep 1,
                  Server_api None, Listdir ''/bld/noarch'', Listdir ''/bld/linux-64''],
          tmp = []\<rparr>)"
  proof -
    have w0: "ws 0 = initial_world"
      by (simp add: ws_def)
    note spec = retry_upload_or_check_spec [of ws initial_world 1 flaky_env example_args False
        "\<lparr>trace = [Server_api None, Listdir ''/bld/noarch'', Print (Failed_retry OSError 1), Sleep 1,
                  Server_api None, Listdir ''/bld/noarch'', Listdir ''/bld/linux-64''],
          tmp = []\<rparr>", OF w0 f1]
    from spec [THEN conjunct1] s1 show ?thesis
      by simp
  qed
  define vs where "vs = (\<lambda>i. \<lparr>trace = concat (map unlistable_attempt [1..<Suc i]), tmp = []\<rparr>)"
  have f9: "\<forall>i<9. \<exists>e w2. upload_or_check unlistable_env example_args (vs i) = (Inl e, w2)
        \<and> vs (Suc i) = emit (Sleep ((Suc i) ^ 2)) (emit (Print (Failed_retry e ((Suc i) ^ 2))) w2)"
    by (simp add: upload_or_check_unlistable vs_def emit_def unlistable_attempt_def)
  have v0: "vs 0 = initial_world"
    by (simp add: vs_def initial_world_def)
  have "retry_upload_or_check unlistable_env example_args initial_world = (Inl TimeoutError, vs 9)"
    using retry_upload_or_check_spec [of vs initial_world 9, OF v0 f9] by simp
  moreover have "vs 9 = \<lparr>trace = concat (map unlistable_attempt [1, 2, 3, 4, 5, 6, 7, 8, 9]), tmp = []\<rparr>"
    unfolding vs_def using range_nine by simp
  moreover have "sleeps (concat (map unlistable_attempt [1, 2, 3, 4, 5, 6, 7, 8, 9]))
       = [1, 4, 9, 16, 25, 36, 49, 64, 81]"
    by (simp add: unlistable_attempt_def)
  moreover have "attempts (concat (map unlistable_attempt [1, 2, 3, 4, 5, 6, 7, 8, 9])) = 9"
    by (simp add: unlistable_attempt_def attempts_def)
  ultimately show ?thesis
    using a by simp
qed

section \<open>Properties of the existence checker\<close>

lemma os_path_split_no_slash: "CHR ''/'' \<notin> set s \<Longrightarrow> os_path_split s = ([], s)"
proof -
  assume "CHR ''/'' \<notin> set s"
  then have tw: "takeWhile (\<lambda>x. x \<noteq> CHR ''/'') (rev s) = rev s"
    by (auto simp: takeWhile_eq_all_conv)
  show ?thesis
    by (simp only: os_path_split_def tw) simp
qed

lemma os_path_split_two_segments:
  assumes "CHR ''/'' \<notin> set plat" "CHR ''/'' \<notin> set base" "plat \<noteq> []"
  shows "os_path_split (plat @ ''/'' @ base) = (plat, base)"
proof -
  have t: "takeWhile (\<lambda>x. x \<noteq> CHR ''/'') (rev base @ CHR ''/'' # rev plat) = rev base"
    using assms(2) by (subst takeWhile_append2) auto
  have nz: "\<not> list_all (\<lambda>x. x = CHR ''/'') plat"
    using assms(1,3) by (cases plat) auto
  have dw: "dropWhile (\<lambda>x. x = CHR ''/'') (rev plat) = rev plat"
    using assms(1) by (cases "rev plat") auto
  have r: "rev (plat @ ''/'' @ base) = rev base @ CHR ''/'' # rev plat"
    by simp
  show ?thesis
    using nz assms(3) by (simp only: os_path_split_def r t) (simp add: dw)
qed

lemma distro_name_two_segments:
  assumes "CHR ''/'' \<notin> set plat" "CHR ''/'' \<notin> set base" "plat \<noteq> []"
  shows "distro_name (plat @ ''/'' @ base) = plat @ ''/'' @ base"
  using assms
  by (simp add: distro_name_def os_path_split_two_segments os_path_split_no_slash
      del: append.simps)

text \<open>
  Claim C5. The checker makes one lookup, of the owner, the name, the version and the
  distribution name \<^verbatim>\<open>platform/basename\<close>. When the remote answers \<open>NotFound\<close> the checker
  returns \<open>False\<close> and raises nothing; any other exception of the lookup leaves the checker as
  it is, after that one lookup.
\<close>

theorem built_distribution_already_exists_spec:
  "(distribution env (trace w) own name version (distro_name fname) = Inl NotFound \<longrightarrow>
      built_distribution_already_exists env c name version fname own w
        = (Inr False, emit (Distribution own name version (distro_name fname)) w))
   \<and> (distribution env (trace w) own name version (distro_name fname) = Inl e \<and> e \<noteq> NotFound \<longrightarrow>
      built_distribution_already_exists env c name version fname own w
        = (Inl e, emit (Distribution own name version (distro_name fname)) w))"
  by (simp add: built_distribution_already_exists_def Let_def)

theorem built_distribution_already_exists_spec_witness:
  "built_distribution_already_exists empty_remote_env \<lparr>token = None\<rparr> ''foo'' ''1.0''
       ''linux-64/foo-1.0-0.tar.bz2'' ''conda-forge'' initial_world
     = (Inr False,
        emit (Distribution ''conda-forge'' ''foo'' ''1.0'' (distro_name ''linux-64/foo-1.0-0.tar.bz2''))
          initial_world)
   \<and> built_distribution_already_exists offline_env \<lparr>token = None\<rparr> ''foo'' ''1.0''
       ''linux-64/foo-1.0-0.tar.bz2'' ''conda-forge'' initial_world
     = (Inl ConnectionError,
        emit (Distribution ''conda-forge'' ''foo'' ''1.0'' (distro_name ''linux-64/foo-1.0-0.tar.bz2''))
          initial_world)
   \<and> distro_name ''linux-64/foo-1.0-0.tar.bz2'' = ''linux-64/foo-1.0-0.tar.bz2''"
proof -
  have nf: "distribution empty_remote_env (trace initial_world) ''conda-forge'' ''foo'' ''1.0''
      (distro_name ''linux-64/foo-1.0-0.tar.bz2'') = Inl NotFound"
    by (simp add: empty_remote_env_def fixed_env_def)
  have ce: "distribution offline_env (trace initial_world) ''conda-forge'' ''foo'' ''1.0''
      (distro_name ''linux-64/foo-1.0-0.tar.bz2'') = Inl ConnectionError \<and> ConnectionError \<noteq> NotFound"
    by (simp add: offline_env_def fixed_env_def)
  have dn: "distro_name ''linux-64/foo-1.0-0.tar.bz2'' = ''linux-64/foo-1.0-0.tar.bz2''"
    by (simp add: distro_name_def os_path_split_def Let_def)
  from nf ce dn
    built_distribution_already_exists_spec [of empty_remote_env initial_world "''conda-forge''"
      "''foo''" "''1.0''" "''linux-64/foo-1.0-0.tar.bz2''" "\<lparr>token = None\<rparr>" ConnectionError]
    built_distribution_already_exists_spec [of offline_env initial_world "''conda-forge''"
      "''foo''" "''1.0''" "''linux-64/foo-1.0-0.tar.bz2''" "\<lparr>token = None\<rparr>" ConnectionError]
  show ?thesis
    by (simp only: simp_thms)
qed

section \<open>Enumeration and classification\<close>

lemma split_pkg_suffix_error:
  "suffix ''.tar.bz2'' p \<Longrightarrow> split_pkg p = Inl e \<Longrightarrow> e = ValueError"
  by (auto simp: split_pkg_def split: list.splits)


lemma built_distributions_error:
  "built_distributions paths = Inl e \<Longrightarrow>
     e = ValueError \<and> (\<exists>p\<in>set paths. suffix ''.tar.bz2'' p \<and> split_pkg p = Inl ValueError)"
proof (induction paths)
  case Nil
  then show ?case by simp
next
  case (Cons p paths)
  show ?case
  proof (cases "suffix ''.tar.bz2'' p")
    case False
    with Cons show ?thesis by simp
  next
    case True
    show ?thesis
    proof (cases "split_pkg p")
      case (Inl e')
      with True Cons.prems have "e' = e" by simp
      with Inl True split_pkg_suffix_error [of p e] show ?thesis by simp
    next
      case (Inr t)
      with True Cons.prems have "built_distributions paths = Inl e"
        by (auto split: sum.splits prod.splits)
      with Cons.IH show ?thesis by auto
    qed
  qed
qed

lemma built_distributions_malformed:
  "p \<in> set paths \<Longrightarrow> suffix ''.tar.bz2'' p \<Longrightarrow> split_pkg p = Inl e \<Longrightarrow>
     built_distributions paths = Inl ValueError"
proof (induction paths)
  case Nil
  then show ?case by simp
next
  case (Cons q paths)
  show ?case
  proof (cases "built_distributions (q # paths)")
    case (Inl e')
    with built_distributions_error [of "q # paths" e'] show ?thesis by simp
  next
    case (Inr ds)
    have "q \<noteq> p"
      using Inr Cons.prems by (auto split: sum.splits prod.splits)
    with Cons have "built_distributions paths = Inl ValueError" by simp
    with Inr show ?thesis
      by (auto split: sum.splits prod.splits if_splits)
  qed
qed







section \<open>Properties of the batch orchestrator\<close>

text \<open>
  Claim C10. A batch that returns, returns \<open>True\<close> exactly when the token that is left after
  the placeholder has been dropped is neither \<^verbatim>\<open>None\<close> nor empty, whatever was classified and
  uploaded.
\<close>

theorem upload_or_check_result:
  "upload_or_check env a w = (Inr b, w') \<Longrightarrow> b = truthy (effective_token env)"
  by (auto simp: upload_or_check_def get_server_api_def split: sum.splits prod.splits if_splits)

theorem upload_or_check_result_witness:
  "upload_or_check all_exist_env example_args initial_world
     = (Inr True,
        \<lparr>trace = [Server_api (Some ''secret''), Listdir ''/bld/noarch'', Listdir ''/bld/linux-64'',
            Distribution ''conda-forge'' ''foo'' ''1.0'' ''linux-64/foo-1.0-0.tar.bz2'',
            Print (Already_exists ''linux-64/foo-1.0-0.tar.bz2'' ''conda-forge''),
            Distribution ''conda-forge'' ''foo'' ''1.0'' ''linux-64/foo-1.0-0.tar.bz2'',
            Mkdtemp ''/tmp/tmp0'', Write_file ''/tmp/tmp0/binstar.token'' ''secret'',
            Rmtree ''/tmp/tmp0''],
          tmp = []\<rparr>)
   \<and> truthy (effective_token all_exist_env)
   \<and> upload_or_check nothing_built_env example_args initial_world
     = (Inr False,
        \<lparr>trace = [Server_api None, Listdir ''/bld/noarch'', Listdir ''/bld/linux-64''], tmp = []\<rparr>)
   \<and> \<not> truthy (effective_token nothing_built_env)"
proof -
  have r1: "upload_or_check all_exist_env example_args initial_world
     = (Inr True,
        \<lparr>trace = [Server_api (Some ''secret''), Listdir ''/bld/noarch'', Listdir ''/bld/linux-64'',
            Distribution ''conda-forge'' ''foo'' ''1.0'' ''linux-64/foo-1.0-0.tar.bz2'',
            Print (Already_exists ''linux-64/foo-1.0-0.tar.bz2'' ''conda-forge''),
            Distribution ''conda-forge'' ''foo'' ''1.0'' ''linux-64/foo-1.0-0.tar.bz2'',
            Mkdtemp ''/tmp/tmp0'', Write_file ''/tmp/tmp0/binstar.token'' ''secret'',
            Rmtree ''/tmp/tmp0''],
          tmp = []\<rparr>)"
    by (simp add: all_exist_env_def run_defs)
  have r2: "upload_or_check nothing_built_env example_args initial_world
     = (Inr False,
        \<lparr>trace = [Server_api None, Listdir ''/bld/noarch'', Listdir ''/bld/linux-64''], tmp = []\<rparr>)"
    by (simp add: nothing_built_env_def run_defs)
  from upload_or_check_result [OF r1] upload_or_check_result [OF r2] r1 r2 show ?thesis
    by simp
qed

lemma check_events_uploads: "list_all check_event evs \<Longrightarrow> filter is_check_call evs = []"
proof (induction evs)
  case Nil
  show ?case by simp
next
  case (Cons e evs)
  then show ?case by (cases e) simp_all
qed

lemma check_events_skips: "list_all check_event evs \<Longrightarrow> filter is_skip_message evs = []"
proof (induction evs)
  case Nil
  show ?case by simp
next
  case (Cons e evs)
  then show ?case by (cases e rule: check_event.cases) simp_all
qed

lemma skip_messages_uploads:
  "filter is_check_call (map (\<lambda>p. Print (New_but_no_token p own)) ps) = []"
  by (induction ps) simp_all

lemma skip_messages_count:
  "length (filter is_skip_message (map (\<lambda>p. Print (New_but_no_token p own)) ps)) = length ps"
  by (induction ps) simp_all

lemma no_token_batch:
  assumes nt: "\<not> truthy (effective_token env)"
    and run: "upload_or_check env a w = (r, w')"
    and cl: "classify env a \<lparr>token = effective_token env\<rparr> (emit (Server_api (effective_token env)) w)
       = (r1, w1)"
  shows "case r1 of
           Inl e \<Rightarrow> r = Inl e \<and> w' = w1
         | Inr (existing, new) \<Rightarrow>
             r = Inr False \<and> w' = fold (\<lambda>p. emit (Print (New_but_no_token p (owner a)))) new w1"
  using nt run cl
  by (auto simp: upload_or_check_def get_server_api_def split: sum.splits)

lemma no_token_uploads:
  assumes nt: "\<not> truthy (effective_token env)"
    and run: "upload_or_check env a w = (r, w')"
  shows "uploads (trace w') = uploads (trace w)"
proof -
  define w0 where "w0 = emit (Server_api (effective_token env)) w"
  obtain r1 w1 where cl: "classify env a \<lparr>token = effective_token env\<rparr> w0 = (r1, w1)"
    by fastforce
  from classify_world [OF cl] obtain evs where
    evs: "trace w1 = trace w0 @ evs" "list_all check_event evs"
    by (auto simp: extends_def)
  then have u1: "uploads (trace w1) = uploads (trace w)"
    by (simp add: uploads_def w0_def trace_emit check_events_uploads)
  note nb = no_token_batch [OF nt run cl [unfolded w0_def]]
  show ?thesis
  proof (cases r1)
    case (Inl e)
    with nb u1 show ?thesis by simp
  next
    case (Inr p)
    obtain existing new where p: "p = (existing, new)" by (cases p) auto
    with nb Inr have "trace w' = trace w1 @ map (\<lambda>p. Print (New_but_no_token p (owner a))) new"
      by (simp add: trace_fold_emit)
    with u1 show ?thesis
      by (simp add: uploads_def skip_messages_uploads)
  qed
qed

text \<open>
  Claim C6, amended. In a batch run with no usable token no upload is invoked, whatever the
  outcome. When enumeration and classification raise no exception, the batch prints one skip
  message for each new distribution, in their order and as its last events, so that the skip
  messages of the batch are as many as the new distributions, and it returns \<open>False\<close>. When
  enumeration, parsing or a lookup raises, the batch raises that exception, in the world the
  exception was raised in.
\<close>

theorem no_token_check_only:
  assumes nt: "\<not> truthy (effective_token env)"
    and run: "upload_or_check env a w = (r, w')"
  shows "uploads (trace w') = uploads (trace w)
    \<and> (\<forall>existing new w1.
          classify env a \<lparr>token = effective_token env\<rparr> (emit (Server_api (effective_token env)) w)
            = (Inr (existing, new), w1)
          \<longrightarrow> r = Inr False
              \<and> trace w' = trace w1 @ map (\<lambda>p. Print (New_but_no_token p (owner a))) new
              \<and> length (filter is_skip_message (drop (length (trace w)) (trace w'))) = length new)
    \<and> (\<forall>e w1.
          classify env a \<lparr>token = effective_token env\<rparr> (emit (Server_api (effective_token env)) w)
            = (Inl e, w1)
          \<longrightarrow> r = Inl e \<and> w' = w1)"
proof (intro conjI allI impI)
  show "uploads (trace w') = uploads (trace w)"
    using nt run by (rule no_token_uploads)
next
  fix existing new w1
  assume cl: "classify env a \<lparr>token = effective_token env\<rparr> (emit (Server_api (effective_token env)) w)
            = (Inr (existing, new), w1)"
  from no_token_batch [OF nt run cl]
  have r: "r = Inr False" and w': "w' = fold (\<lambda>p. emit (Print (New_but_no_token p (owner a)))) new w1"
    by simp_all
  show "r = Inr False" by (rule r)
  show t: "trace w' = trace w1 @ map (\<lambda>p. Print (New_but_no_token p (owner a))) new"
    by (simp add: w' trace_fold_emit)
  from classify_world [OF cl] obtain evs where
    evs: "trace w1 = trace w @ Server_api (effective_token env) # evs" "list_all check_event evs"
    by (auto simp: extends_def trace_emit)
  have "drop (length (trace w)) (trace w')
      = Server_api (effective_token env) # evs @ map (\<lambda>p. Print (New_but_no_token p (owner a))) new"
    by (simp add: t evs(1))
  then show "length (filter is_skip_message (drop (length (trace w)) (trace w'))) = length new"
    by (simp add: check_events_skips [OF evs(2)] skip_messages_count)
next
  fix e w1
  assume cl: "classify env a \<lparr>token = effective_token env\<rparr> (emit (Server_api (effective_token env)) w)
            = (Inl e, w1)"
  from no_token_batch [OF nt run cl] show "r = Inl e" and "w' = w1"
    by simp_all
qed

theorem no_token_check_only_witness:
  "\<not> truthy (effective_token empty_remote_env)
   \<and> fst (upload_or_check empty_remote_env example_args initial_world) = Inr False
   \<and> uploads (trace (snd (upload_or_check empty_remote_env example_args initial_world))) = 0
   \<and> length (filter is_skip_message (trace (snd (upload_or_check empty_remote_env example_args initial_world))))
       = length [''noarch/foo-1.0-0.tar.bz2'', ''linux-64/foo-1.0-0.tar.bz2'']
   \<and> \<not> truthy (effective_token unlistable_env)
   \<and> upload_or_check unlistable_env example_args initial_world
       = (Inl OSError, \<lparr>trace = [Server_api None, Listdir ''/bld/noarch''], tmp = []\<rparr>)"
proof -
  have nt: "\<not> truthy (effective_token empty_remote_env)"
    by (simp add: empty_remote_env_def run_defs)
  obtain r w' where run: "upload_or_check empty_remote_env example_args initial_world = (r, w')"
    by fastforce
  obtain w1 where cl: "classify empty_remote_env example_args \<lparr>token = effective_token empty_remote_env\<rparr>
      (emit (Server_api (effective_token empty_remote_env)) initial_world)
        = (Inr ([], [''noarch/foo-1.0-0.tar.bz2'', ''linux-64/foo-1.0-0.tar.bz2'']), w1)"
    by (simp add: empty_remote_env_def run_defs)
  have t0: "trace initial_world = []"
    by (simp add: initial_world_def)
  note spec = no_token_check_only [OF nt run]
  from spec have u: "uploads (trace w') = uploads (trace initial_world)"
    by (rule conjunct1)
  from spec cl have r: "r = Inr False"
    and n: "length (filter is_skip_message (drop (length (trace initial_world)) (trace w')))
      = length [''noarch/foo-1.0-0.tar.bz2'', ''linux-64/foo-1.0-0.tar.bz2'']"
    by blast+
  from u have u0: "uploads (trace w') = 0"
    by (simp add: t0 uploads_def)
  have nt2: "\<not> truthy (effective_token unlistable_env)"
    by (simp add: unlistable_env_def run_defs)
  obtain r2 w2 where run2: "upload_or_check unlistable_env example_args initial_world = (r2, w2)"
    by fastforce
  have cl2: "classify unlistable_env example_args \<lparr>token = effective_token unlistable_env\<rparr>
      (emit (Server_api (effective_token unlistable_env)) initial_world)
        = (Inl OSError, \<lparr>trace = [Server_api None, Listdir ''/bld/noarch''], tmp = []\<rparr>)"
    by (simp add: unlistable_env_def run_defs)
  from no_token_check_only [OF nt2 run2] cl2
  have "r2 = Inl OSError \<and> w2 = \<lparr>trace = [Server_api None, Listdir ''/bld/noarch''], tmp = []\<rparr>"
    by blast
  with run2 have p: "upload_or_check unlistable_env example_args initial_world
       = (Inl OSError, \<lparr>trace = [Server_api None, Listdir ''/bld/noarch''], tmp = []\<rparr>)"
    by simp
  from nt r n u0 nt2 show ?thesis
    by (simp add: run t0 p)
qed

text \<open>With no token and a remote index that does not answer, the batch raises.\<close>

theorem no_token_batch_can_raise:
  "\<not> truthy (effective_token offline_env)
   \<and> fst (upload_or_check offline_env example_args initial_world) = Inl ConnectionError"
  by (simp add: offline_env_def run_defs)

section \<open>What the batch does not depend on\<close>

lemma built_distribution_already_exists_token:
  "built_distribution_already_exists (env\<lparr>environ_token := x\<rparr>) = built_distribution_already_exists env"
  by (intro ext) (simp add: built_distribution_already_exists_def)

lemma select_distributions_token:
  "select_distributions (env\<lparr>environ_token := x\<rparr>) c own want ds w
     = select_distributions env c own want ds w"
  by (induction ds arbitrary: w)
    (auto simp: built_distribution_already_exists_token split: sum.splits prod.splits)

lemma list_paths_token: "list_paths (env\<lparr>environ_token := x\<rparr>) w = list_paths env w"
  by (simp add: list_paths_def listdir_def split: sum.splits prod.splits)

lemma classify_token: "classify (env\<lparr>environ_token := x\<rparr>) a c w = classify env a c w"
  by (simp add: classify_def list_paths_token select_distributions_token
      split: sum.splits prod.splits)

lemma upload_all_token:
  "upload_all (env\<lparr>environ_token := x\<rparr>) own chan paths fn w = upload_all env own chan paths fn w"
  by (induction paths arbitrary: w) (simp_all add: upload_def split: sum.splits prod.splits)

lemma get_temp_token_token:
  "get_temp_token (env\<lparr>environ_token := x\<rparr>) tok body w = get_temp_token env tok body w"
  by (simp add: get_temp_token_def Let_def split: option.splits sum.splits prod.splits)

lemma upload_or_check_token:
  assumes "effective_token (env\<lparr>environ_token := x\<rparr>) = effective_token (env\<lparr>environ_token := y\<rparr>)"
  shows "upload_or_check (env\<lparr>environ_token := x\<rparr>) a w = upload_or_check (env\<lparr>environ_token := y\<rparr>) a w"
proof -
  have u: "upload_all (env\<lparr>environ_token := x\<rparr>) = upload_all (env\<lparr>environ_token := y\<rparr>)"
    by (intro ext) (simp add: upload_all_token)
  show ?thesis
    by (simp add: upload_or_check_def assms classify_token get_temp_token_token u
        split: sum.splits prod.splits)
qed

lemma retry_loop_token:
  assumes "effective_token (env\<lparr>environ_token := x\<rparr>) = effective_token (env\<lparr>environ_token := y\<rparr>)"
  shows "retry_loop (env\<lparr>environ_token := x\<rparr>) a js w = retry_loop (env\<lparr>environ_token := y\<rparr>) a js w"
  by (induction js arbitrary: w)
    (simp_all add: upload_or_check_token [OF assms] split: sum.splits prod.splits)

lemma effective_token_placeholder:
  "prefix ''$('' t \<Longrightarrow> effective_token (env\<lparr>environ_token := Some t\<rparr>) = None"
  by (auto simp: effective_token_def)

lemma retry_loop_no_token_uploads:
  assumes nt: "\<not> truthy (effective_token env)"
  shows "uploads (trace (snd (retry_loop env a js w))) = uploads (trace w)"
proof (induction js arbitrary: w)
  case Nil
  show ?case by simp
next
  case (Cons i js)
  obtain r1 w1 where u: "upload_or_check env a w = (r1, w1)"
    by fastforce
  note u1 = no_token_uploads [OF nt u]
  show ?case
  proof (cases r1)
    case (Inr b)
    with u u1 show ?thesis by simp
  next
    case (Inl e)
    define w2 where "w2 = emit (Sleep (i ^ 2)) (emit (Print (Failed_retry e (i ^ 2))) w1)"
    have "uploads (trace w2) = uploads (trace w1)"
      by (simp add: w2_def uploads_def trace_emit)
    with Cons.IH [of w2] u Inl u1 show ?thesis
      by (simp add: w2_def)
  qed
qed

text \<open>
  Claim C7. A run whose \<^verbatim>\<open>BINSTAR_TOKEN\<close> begins with \<^verbatim>\<open>$(\<close> is the run with no token: the
  retry wrapper and each batch return the same result and leave the same world, hence the same
  lookups, classification, messages and sleeps, and the run invokes no upload.
\<close>

theorem placeholder_token_is_no_token:
  assumes "prefix ''$('' t"
  shows "retry_upload_or_check (env\<lparr>environ_token := Some t\<rparr>) a w
           = retry_upload_or_check (env\<lparr>environ_token := None\<rparr>) a w
    \<and> upload_or_check (env\<lparr>environ_token := Some t\<rparr>) a w
           = upload_or_check (env\<lparr>environ_token := None\<rparr>) a w
    \<and> uploads (trace (snd (retry_upload_or_check (env\<lparr>environ_token := Some t\<rparr>) a w)))
           = uploads (trace w)"
proof -
  have e: "effective_token (env\<lparr>environ_token := Some t\<rparr>) = effective_token (env\<lparr>environ_token := None\<rparr>)"
    using assms by (simp add: effective_token_placeholder) (simp add: effective_token_def)
  have nt: "\<not> truthy (effective_token (env\<lparr>environ_token := Some t\<rparr>))"
    using assms by (simp add: effective_token_placeholder truthy_def)
  show ?thesis
    using retry_loop_token [OF e] upload_or_check_token [OF e] retry_loop_no_token_uploads [OF nt]
    by (simp add: retry_upload_or_check_def)
qed

theorem placeholder_token_is_no_token_witness:
  "prefix ''$('' ''$(BINSTAR_TOKEN)''
   \<and> retry_upload_or_check placeholder_env example_args initial_world
       = retry_upload_or_check (placeholder_env\<lparr>environ_token := None\<rparr>) example_args initial_world
   \<and> retry_upload_or_check placeholder_env example_args initial_world
       = (Inr False,
          \<lparr>trace = [Server_api None, Listdir ''/bld/noarch'', Listdir ''/bld/linux-64'',
              Distribution ''conda-forge'' ''bar'' ''2.0'' ''linux-64/bar-2.0-0.tar.bz2'',
              Distribution ''conda-forge'' ''bar'' ''2.0'' ''linux-64/bar-2.0-0.tar.bz2'',
              Print (New_but_no_token ''linux-64/bar-2.0-0.tar.bz2'' ''conda-forge'')],
            tmp = []\<rparr>)"
proof -
  have p: "prefix ''$('' ''$(BINSTAR_TOKEN)''"
    by simp
  have env: "placeholder_env\<lparr>environ_token := Some ''$(BINSTAR_TOKEN)''\<rparr> = placeholder_env"
    by (simp add: placeholder_env_def fixed_env_def)
  have run: "retry_upload_or_check (placeholder_env\<lparr>environ_token := None\<rparr>) example_args initial_world
       = (Inr False,
          \<lparr>trace = [Server_api None, Listdir ''/bld/noarch'', Listdir ''/bld/linux-64'',
              Distribution ''conda-forge'' ''bar'' ''2.0'' ''linux-64/bar-2.0-0.tar.bz2'',
              Distribution ''conda-forge'' ''bar'' ''2.0'' ''linux-64/bar-2.0-0.tar.bz2'',
              Print (New_but_no_token ''linux-64/bar-2.0-0.tar.bz2'' ''conda-forge'')],
            tmp = []\<rparr>)"
    by (simp add: retry_upload_or_check_unfold placeholder_env_def run_defs)
  from placeholder_token_is_no_token [OF p, of placeholder_env example_args initial_world]
  have "retry_upload_or_check placeholder_env example_args initial_world
       = retry_upload_or_check (placeholder_env\<lparr>environ_token := None\<rparr>) example_args initial_world"
    by (simp only: env)
  with p run show ?thesis
    by simp
qed

text \<open>
  Claim C9. Two runs that differ in the \<^verbatim>\<open>variant\<close> argument only are the same run: the retry
  wrapper and the batch return the same result and leave the same world. Neither function
  reads the argument.
\<close>

theorem variant_is_unused:
  "retry_upload_or_check env (a\<lparr>variant := v\<rparr>) w = retry_upload_or_check env a w
   \<and> upload_or_check env (a\<lparr>variant := v\<rparr>) w = upload_or_check env a w"
proof -
  have u: "\<And>w. upload_or_check env (a\<lparr>variant := v\<rparr>) w = upload_or_check env a w"
    by (simp add: upload_or_check_def classify_def split: sum.splits prod.splits)
  have "retry_loop env (a\<lparr>variant := v\<rparr>) js w = retry_loop env a js w" for js
    by (induction js arbitrary: w) (simp_all add: u split: sum.splits prod.splits)
  with u show ?thesis
    by (simp add: retry_upload_or_check_def)
qed

section \<open>Malformed names\<close>

lemma list_paths_returns:
  "list_paths env w = (Inr paths, w1) \<Longrightarrow>
     w1 = w\<lparr>trace := trace w @ [Listdir (path_join (croot env) ''noarch''),
                                 Listdir (path_join (croot env) (subdir env))]\<rparr>"
  by (auto simp: list_paths_def listdir_def emit_def split: sum.splits)

lemma upload_or_check_malformed:
  assumes "enumerates_malformed env w"
  shows "upload_or_check env a w
     = (Inl ValueError,
        w\<lparr>trace := trace w @ [Server_api (effective_token env),
            Listdir (path_join (croot env) ''noarch''),
            Listdir (path_join (croot env) (subdir env))]\<rparr>)"
proof -
  define w0 where "w0 = emit (Server_api (effective_token env)) w"
  from assms obtain paths w1 p where
    ls: "list_paths env w0 = (Inr paths, w1)"
    and p: "p \<in> set paths" "suffix ''.tar.bz2'' p" "isl (split_pkg p)"
    by (auto simp: enumerates_malformed_def w0_def list_ex_iff split: sum.splits prod.splits)
  from p(3) obtain e where "split_pkg p = Inl e"
    by (cases "split_pkg p") auto
  with p have "built_distributions paths = Inl ValueError"
    by (auto intro: built_distributions_malformed)
  with ls have "upload_or_check env a w = (Inl ValueError, w1)"
    by (simp add: upload_or_check_def get_server_api_def classify_def w0_def)
  with list_paths_returns [OF ls] show ?thesis
    by (simp add: w0_def emit_def)
qed

lemma retry_loop_malformed:
  "(\<forall>i<length js. enumerates_malformed env
        (w\<lparr>trace := trace w @ concat (map (malformed_attempt env) (take i js))\<rparr>)) \<Longrightarrow>
   retry_loop env a js w
     = (Inl TimeoutError, w\<lparr>trace := trace w @ concat (map (malformed_attempt env) js)\<rparr>)"
proof (induction js arbitrary: w)
  case Nil
  show ?case by simp
next
  case (Cons j js)
  from Cons.prems [rule_format, of 0] have "enumerates_malformed env w"
    by simp
  note u = upload_or_check_malformed [OF this, of a]
  define w2 where "w2 = w\<lparr>trace := trace w @ malformed_attempt env j\<rparr>"
  have step: "retry_loop env a (j # js) w = retry_loop env a js w2"
    by (simp add: u w2_def emit_def malformed_attempt_def)
  have "\<forall>i<length js. enumerates_malformed env
        (w2\<lparr>trace := trace w2 @ concat (map (malformed_attempt env) (take i js))\<rparr>)"
  proof (intro allI impI)
    fix i
    assume "i < length js"
    with Cons.prems [rule_format, of "Suc i"] show "enumerates_malformed env
        (w2\<lparr>trace := trace w2 @ concat (map (malformed_attempt env) (take i js))\<rparr>)"
      by (simp add: w2_def)
  qed
  from Cons.IH [OF this] step show ?case
    by (simp add: w2_def)
qed

text \<open>
  Claim C3, amended. A batch attempt whose enumeration yields a file that ends in \<^verbatim>\<open>.tar.bz2\<close>
  and does not parse raises \<open>ValueError\<close> right after the two listings, before any lookup,
  message or upload. The retry wrapper catches it as it catches any exception: when the
  enumeration of each of the nine attempts, in the world that attempt starts in, yields such
  a file, the run makes its nine attempts, prints the failure and sleeps the square of the
  attempt's number after each, and ends with \<open>TimeoutError\<close>.
\<close>

theorem malformed_name_is_retried:
  "(enumerates_malformed env w \<longrightarrow>
      upload_or_check env a w
        = (Inl ValueError,
           w\<lparr>trace := trace w @ [Server_api (effective_token env),
               Listdir (path_join (croot env) ''noarch''),
               Listdir (path_join (croot env) (subdir env))]\<rparr>))
   \<and> ((\<forall>i<9. enumerates_malformed env
          (w\<lparr>trace := trace w @ concat (map (malformed_attempt env) [1..<Suc i])\<rparr>)) \<longrightarrow>
      retry_upload_or_check env a w
        = (Inl TimeoutError,
           w\<lparr>trace := trace w @ concat (map (malformed_attempt env) [1, 2, 3, 4, 5, 6, 7, 8, 9])\<rparr>))"
proof (intro conjI impI)
  assume "enumerates_malformed env w"
  then show "upload_or_check env a w
        = (Inl ValueError,
           w\<lparr>trace := trace w @ [Server_api (effective_token env),
               Listdir (path_join (croot env) ''noarch''),
               Listdir (path_join (croot env) (subdir env))]\<rparr>)"
    by (rule upload_or_check_malformed)
next
  assume all: "\<forall>i<9. enumerates_malformed env
          (w\<lparr>trace := trace w @ concat (map (malformed_attempt env) [1..<Suc i])\<rparr>)"
  have "\<forall>i<length [1..<10::nat]. enumerates_malformed env
        (w\<lparr>trace := trace w @ concat (map (malformed_attempt env) (take i [1..<10]))\<rparr>)"
  proof (intro allI impI)
    fix i :: nat
    assume "i < length [1..<10::nat]"
    then have i: "i < 9" by simp
    then have "take i [1..<10] = [1..<Suc i]"
      by simp
    with all i show "enumerates_malformed env
        (w\<lparr>trace := trace w @ concat (map (malformed_attempt env) (take i [1..<10]))\<rparr>)"
      by simp
  qed
  from retry_loop_malformed [OF this, of a]
  have "retry_loop env a [1..<10] w
      = (Inl TimeoutError, w\<lparr>trace := trace w @ concat (map (malformed_attempt env) [1..<10])\<rparr>)" .
  then show "retry_upload_or_check env a w
        = (Inl TimeoutError,
           w\<lparr>trace := trace w @ concat (map (malformed_attempt env) [1, 2, 3, 4, 5, 6, 7, 8, 9])\<rparr>)"
    by (simp only: retry_upload_or_check_def range_nine)
qed

lemma malformed_env_enumerates: "enumerates_malformed malformed_env w"
  by (simp add: enumerates_malformed_def malformed_env_def run_defs)

theorem malformed_name_is_retried_witness:
  "enumerates_malformed malformed_env initial_world
   \<and> upload_or_check malformed_env example_args initial_world
       = (Inl ValueError,
          \<lparr>trace = [Server_api None, Listdir ''/bld/noarch'', Listdir ''/bld/linux-64''], tmp = []\<rparr>)
   \<and> retry_upload_or_check malformed_env example_args initial_world
       = (Inl TimeoutError,
          \<lparr>trace = concat (map (malformed_attempt malformed_env) [1, 2, 3, 4, 5, 6, 7, 8, 9]),
            tmp = []\<rparr>)"
proof -
  note spec = malformed_name_is_retried [of malformed_env initial_world example_args]
  from spec [THEN conjunct1] malformed_env_enumerates
  have a: "upload_or_check malformed_env example_args initial_world
       = (Inl ValueError,
          initial_world\<lparr>trace := trace initial_world @ [Server_api (effective_token malformed_env),
               Listdir (path_join (croot malformed_env) ''noarch''),
               Listdir (path_join (croot malformed_env) (subdir malformed_env))]\<rparr>)"
    by blast
  from spec [THEN conjunct2] malformed_env_enumerates
  have b: "retry_upload_or_check malformed_env example_args initial_world
        = (Inl TimeoutError,
           initial_world\<lparr>trace := trace initial_world
             @ concat (map (malformed_attempt malformed_env) [1, 2, 3, 4, 5, 6, 7, 8, 9])\<rparr>)"
    by blast
  have c: "effective_token malformed_env = None"
    "path_join (croot malformed_env) ''noarch'' = ''/bld/noarch''"
    "path_join (croot malformed_env) (subdir malformed_env) = ''/bld/linux-64''"
    by (simp_all add: malformed_env_def run_defs)
  have "initial_world\<lparr>trace := trace initial_world @ [Server_api None, Listdir ''/bld/noarch'',
        Listdir ''/bld/linux-64'']\<rparr>
      = \<lparr>trace = [Server_api None, Listdir ''/bld/noarch'', Listdir ''/bld/linux-64''], tmp = []\<rparr>"
    by (simp add: initial_world_def)
  with a c have a': "upload_or_check malformed_env example_args initial_world
       = (Inl ValueError,
          \<lparr>trace = [Server_api None, Listdir ''/bld/noarch'', Listdir ''/bld/linux-64''], tmp = []\<rparr>)"
    by simp
  have "initial_world\<lparr>trace := trace initial_world
             @ concat (map (malformed_attempt malformed_env) [1, 2, 3, 4, 5, 6, 7, 8, 9])\<rparr>
      = \<lparr>trace = concat (map (malformed_attempt malformed_env) [1, 2, 3, 4, 5, 6, 7, 8, 9]),
            tmp = []\<rparr>"
    by (simp add: initial_world_def)
  with b have b': "retry_upload_or_check malformed_env example_args initial_world
       = (Inl TimeoutError,
          \<lparr>trace = concat (map (malformed_attempt malformed_env) [1, 2, 3, 4, 5, 6, 7, 8, 9]),
            tmp = []\<rparr>)"
    by simp
  from malformed_env_enumerates [of initial_world] a' b' show ?thesis
    by (simp only: simp_thms)
qed

text \<open>The parse error of a malformed name does not leave the run: the wrapper catches it,
  tries eight more times and raises \<open>TimeoutError\<close>.\<close>

theorem malformed_name_not_fatal:
  "fst (upload_or_check malformed_env example_args initial_world) = Inl ValueError
   \<and> fst (retry_upload_or_check malformed_env example_args initial_world) = Inl TimeoutError
   \<and> attempts (trace (snd (retry_upload_or_check malformed_env example_args initial_world))) = 9
   \<and> sleeps (trace (snd (retry_upload_or_check malformed_env example_args initial_world)))
       = [1, 4, 9, 16, 25, 36, 49, 64, 81]"
  by (simp add: retry_upload_or_check_unfold malformed_env_def run_defs)

section \<open>Properties of the temporary credential file\<close>

lemma get_temp_token_success:
  assumes "get_temp_token env tok body w = (Inr x, w')"
  shows "last (trace w') = Rmtree (mkdtemp env (trace w))
    \<and> mkdtemp env (trace w) \<notin> fst ` set (tmp w')"
  using assms
  by (auto simp: get_temp_token_def Let_def trace_emit split: option.splits sum.splits prod.splits)

lemma upload_or_check_success_cleans:
  assumes "upload_or_check env a w = (Inr True, w')"
  shows "\<exists>dn. last (trace w') = Rmtree dn \<and> dn \<notin> fst ` set (tmp w')"
  using assms
  by (auto simp: upload_or_check_def get_server_api_def
      split: sum.splits prod.splits if_splits dest: get_temp_token_success)

text \<open>When a token is set and classification has returned, a batch that raises leaves the
  temporary directory on disk, with the token in its file.\<close>

lemma upload_or_check_failure_leaves:
  assumes tok: "effective_token env = Some s" "s \<noteq> []"
    and cl: "classify env a \<lparr>token = Some s\<rparr> (emit (Server_api (Some s)) w) = (Inr (existing, new), w1)"
    and run: "upload_or_check env a w = (Inl e, w')"
  shows "(mkdtemp env (trace w1), s) \<in> set (tmp w')"
proof -
  define dn where "dn = mkdtemp env (trace w1)"
  define fn where "fn = path_join dn ''binstar.token''"
  define w2 where "w2 = (emit (Write_file fn s) (emit (Mkdtemp dn) w1))\<lparr>tmp := tmp (emit (Mkdtemp dn) w1) @ [(dn, s)]\<rparr>"
  obtain r3 w3 where up: "upload_all env (owner a) (channel a) new fn w2 = (r3, w3)"
    by fastforce
  from upload_all_world [OF up] have t3: "tmp w3 = tmp w2"
    by simp
  have "w' = w3"
    using run tok cl up
    by (auto simp: upload_or_check_def get_server_api_def truthy_def get_temp_token_def Let_def
        dn_def fn_def w2_def split: sum.splits)
  with t3 show ?thesis
    by (simp add: w2_def dn_def)
qed

text \<open>
  Claim C1 fails on the exception path. With a token, one new distribution and an upload
  command that exits with a non-zero status, the batch raises \<open>CalledProcessError\<close>;
  \<^verbatim>\<open>shutil.rmtree\<close> is not called, and the temporary directory with the token file is still
  on disk when the batch is left.
\<close>

theorem token_file_left_after_failed_upload:
  "upload_or_check failing_upload_env example_args initial_world
     = (Inl CalledProcessError,
        \<lparr>trace = [Server_api (Some ''secret''), Listdir ''/bld/noarch'', Listdir ''/bld/linux-64'',
            Distribution ''conda-forge'' ''bar'' ''2.0'' ''linux-64/bar-2.0-0.tar.bz2'',
            Distribution ''conda-forge'' ''bar'' ''2.0'' ''linux-64/bar-2.0-0.tar.bz2'',
            Mkdtemp ''/tmp/tmp0'', Write_file ''/tmp/tmp0/binstar.token'' ''secret'',
            Check_call [''anaconda'', ''--quiet'', ''-t'', ''/tmp/tmp0/binstar.token'', ''upload'',
              ''linux-64/bar-2.0-0.tar.bz2'', ''--user=conda-forge'', ''--channel=main'']],
          tmp = [(''/tmp/tmp0'', ''secret'')]\<rparr>)"
  by (simp add: failing_upload_env_def run_defs)

end
